theory Spec2Isabelle
  imports Main "HOL-Library.AList"
begin

section \<open>The password-recovery verification route\<close>

text \<open>
  This theory embeds \<^verbatim>\<open>app/routes/_auth+/forgot-password_.verify.tsx\<close>: the
  \<^verbatim>\<open>loader\<close>, the \<^verbatim>\<open>action\<close> and the function \<^verbatim>\<open>validate\<close> both of them
  call. The route talks to a database (Prisma), to a TOTP verifier, to a cookie session
  storage and to two libraries (conform for reading the form, zod for the schema).
  Database tables are lists of rows held in an explicit state; every call to a
  collaborator appends an event to a trace held in the same state, so that "was the
  verifier called, and with what" is a statement about the trace.
\<close>

subsection \<open>Rows, sessions and the state\<close>

text \<open>
  A row of the \<^verbatim>\<open>verification\<close> table, with the columns the route reads or filters
  on (\<open>vtype\<close> is the column \<^verbatim>\<open>type\<close>), and a row of the \<^verbatim>\<open>user\<close> table with the
  two selected columns.
\<close>

record verification =
  vtype :: string
  verificationTarget :: string
  otp :: string
  algorithm :: string
  secretKey :: string
  validSeconds :: int

record user =
  email :: string
  username :: string

text \<open>
  A session is a key-value store that keeps insertion order (a JavaScript \<^verbatim>\<open>Map\<close>);
  \<^verbatim>\<open>session.set(k, v)\<close> is \<^const>\<open>AList.update\<close>.
\<close>

type_synonym session = "(string \<times> string) list"

text \<open>The calls the route makes to its collaborators, with their arguments.\<close>

datatype event =
  FindFirstVerification string string string
| VerifyTOTP string string string int nat
| DeleteManyVerification string string string
| FindFirstUser string
| GetSession "string option"
| CommitSession session

record world =
  verifications :: "verification list"
  users :: "user list"
  trace :: "event list"

subsection \<open>Collaborators that are imported by the route\<close>

text \<open>
  The route imports constants and functions from modules that are not part of the file.
  They are parameters of the model:
  \<^item> \<^verbatim>\<open>verificationType\<close> (from \<^verbatim>\<open>forgot-password.tsx\<close>) and
    \<^verbatim>\<open>resetPasswordUsernameSessionKey\<close> (from \<^verbatim>\<open>reset-password.tsx\<close>): string constants;
  \<^item> \<^verbatim>\<open>emailSchema\<close> and \<^verbatim>\<open>usernameSchema\<close> (from \<^verbatim>\<open>user-validation.ts\<close>): string
    schemas; each is given by the list of issue messages it reports on a string, the
    empty list when it accepts the string;
  \<^item> \<^verbatim>\<open>verifyTOTP\<close> (from \<^verbatim>\<open>totp.server.ts\<close>): called with the submitted code, the
    key, the algorithm, the step length and the window; its answer also depends on the
    clock, which is why two calls of the route may be given different collaborators;
  \<^item> \<^verbatim>\<open>getSession\<close> (from \<^verbatim>\<open>session.server.ts\<close>): the session stored in the request's
    \<^verbatim>\<open>Cookie\<close> header.
  The names of the two form fields are fixed by the route itself: it reads
  \<^verbatim>\<open>data.usernameOrEmail\<close> and \<^verbatim>\<open>data.code\<close> from an object whose keys are
  \<^verbatim>\<open>forgotPasswordVerificationTargetQueryParam\<close> and \<^verbatim>\<open>forgotPasswordOTPQueryParam\<close>.
\<close>

record collaborators =
  verificationType :: string
  resetPasswordUsernameSessionKey :: string
  emailSchema :: "string \<Rightarrow> string list"
  usernameSchema :: "string \<Rightarrow> string list"
  verifyTOTP :: "string \<Rightarrow> string \<Rightarrow> string \<Rightarrow> int \<Rightarrow> nat \<Rightarrow> bool"
  getSession :: "string option \<Rightarrow> session"

definition forgotPasswordVerificationTargetQueryParam :: string where
  "forgotPasswordVerificationTargetQueryParam = ''usernameOrEmail''"

definition forgotPasswordOTPQueryParam :: string where
  "forgotPasswordOTPQueryParam = ''code''"

subsection \<open>The database calls\<close>

text \<open>
  The \<^verbatim>\<open>where\<close> clause shared by \<^verbatim>\<open>findFirst\<close> (lines 65-76) and \<^verbatim>\<open>deleteMany\<close>
  (lines 118-124): equality on type, target and otp.
\<close>

definition matches :: "string \<Rightarrow> string \<Rightarrow> string \<Rightarrow> verification \<Rightarrow> bool" where
  "matches ty target c v \<longleftrightarrow> vtype v = ty \<and> verificationTarget v = target \<and> otp v = c"

definition verification_findFirst ::
  "string \<Rightarrow> string \<Rightarrow> string \<Rightarrow> world \<Rightarrow> verification option \<times> world" where
  "verification_findFirst ty target c w =
     (find (matches ty target c) (verifications w),
      w\<lparr>trace := trace w @ [FindFirstVerification ty target c]\<rparr>)"

text \<open>\<^verbatim>\<open>deleteMany\<close> answers with the number of rows it removed; the route ignores it.\<close>

definition verification_deleteMany ::
  "string \<Rightarrow> string \<Rightarrow> string \<Rightarrow> world \<Rightarrow> nat \<times> world" where
  "verification_deleteMany ty target c w =
     (length (filter (matches ty target c) (verifications w)),
      w\<lparr>verifications := filter (\<lambda>v. \<not> matches ty target c v) (verifications w),
        trace := trace w @ [DeleteManyVerification ty target c]\<rparr>)"

definition user_findFirst :: "string \<Rightarrow> world \<Rightarrow> user option \<times> world" where
  "user_findFirst t w =
     (find (\<lambda>u. email u = t \<or> username u = t) (users w),
      w\<lparr>trace := trace w @ [FindFirstUser t]\<rparr>)"

definition call_verifyTOTP ::
  "collaborators \<Rightarrow> string \<Rightarrow> string \<Rightarrow> string \<Rightarrow> int \<Rightarrow> nat \<Rightarrow> world \<Rightarrow> bool \<times> world" where
  "call_verifyTOTP c code key alg secs win w =
     (verifyTOTP c code key alg secs win,
      w\<lparr>trace := trace w @ [VerifyTOTP code key alg secs win]\<rparr>)"

definition call_getSession :: "collaborators \<Rightarrow> string option \<Rightarrow> world \<Rightarrow> session \<times> world" where
  "call_getSession c ck w = (getSession c ck, w\<lparr>trace := trace w @ [GetSession ck]\<rparr>)"

text \<open>
  \<^verbatim>\<open>commitSession\<close> serialises and signs the session into the \<^verbatim>\<open>Set-Cookie\<close> header.
  The header is modelled by the session it carries.
\<close>

definition call_commitSession :: "session \<Rightarrow> world \<Rightarrow> session \<times> world" where
  "call_commitSession s w = (s, w\<lparr>trace := trace w @ [CommitSession s]\<rparr>)"

subsection \<open>Reading the request body (conform's \<^verbatim>\<open>parse\<close>)\<close>

text \<open>
  The body is a \<^verbatim>\<open>FormData\<close> or a \<^verbatim>\<open>URLSearchParams\<close>: a list of entries, names
  with string values, in order. conform builds the payload object from the entries: the
  first value of a name is stored as it is, a second value turns the property into an
  array, and an empty string counts as no previous value. The entries named
  \<^verbatim>\<open>__intent__\<close> are not fields: they give the intent (conform's \<^verbatim>\<open>getIntent\<close>), which
  is \<^verbatim>\<open>submit\<close> when there is no such entry and the value of the first one otherwise. A
  second entry is tolerated when it is empty or repeats the first; a second entry that
  differs, or a third entry, is an exception, raised before the payload is built.
  Entry names are taken as flat property names; conform's path syntax for nested fields
  and its list intents, which rewrite array fields of the payload before validation, are
  not used by this form and are not modelled.
\<close>

datatype fvalue = Str string | Arr "string list"

type_synonym entries = "(string \<times> string) list"
type_synonym payload = "(string \<times> fvalue) list"

datatype error = IntentError | InvariantError string

definition setValue :: "string \<Rightarrow> string \<Rightarrow> payload \<Rightarrow> payload" where
  "setValue name v p =
     (case map_of p name of
        None \<Rightarrow> AList.update name (Str v) p
      | Some (Str prev) \<Rightarrow>
          if prev = [] then AList.update name (Str v) p
          else AList.update name (Arr [prev, v]) p
      | Some (Arr prevs) \<Rightarrow> AList.update name (Arr (prevs @ [v])) p)"

definition getIntent :: "entries \<Rightarrow> error + string" where
  "getIntent body =
     (case map snd (filter (\<lambda>e. fst e = ''__intent__'') body) of
        [] \<Rightarrow> Inr ''submit''
      | [i] \<Rightarrow> Inr i
      | [i, second] \<Rightarrow> if second \<noteq> [] \<and> i \<noteq> second then Inl IntentError else Inr i
      | _ \<Rightarrow> Inl IntentError)"

definition resolve :: "entries \<Rightarrow> payload" where
  "resolve body =
     foldl (\<lambda>p (name, v). setValue name v p) []
       (filter (\<lambda>e. fst e \<noteq> ''__intent__'') body)"

definition read_entries :: "entries \<Rightarrow> error + (string \<times> payload)" where
  "read_entries body =
     (case getIntent body of Inl e \<Rightarrow> Inl e | Inr i \<Rightarrow> Inr (i, resolve body))"

subsection \<open>The schema (zod)\<close>

text \<open>
  zod parses with a status: \<^verbatim>\<open>valid\<close>, \<^verbatim>\<open>dirty\<close> (issues were reported, the value is
  still passed on) or \<^verbatim>\<open>aborted\<close>. A value that is not a string aborts a string
  schema; a failed \<^verbatim>\<open>min\<close>/\<^verbatim>\<open>max\<close> check only makes it dirty. An issue is the name of
  the field it is attached to and a message.
\<close>

datatype status = Valid | Dirty | Aborted

type_synonym issue = "string \<times> string"

text \<open>Line 37: \<^verbatim>\<open>z.string().min(6).max(6)\<close>. Only the length is checked.\<close>

definition code_schema :: "fvalue option \<Rightarrow> status \<times> issue list" where
  "code_schema x =
     (case x of
        None \<Rightarrow> (Aborted, [(forgotPasswordOTPQueryParam, ''Required'')])
      | Some (Arr _) \<Rightarrow>
          (Aborted, [(forgotPasswordOTPQueryParam, ''Expected string, received array'')])
      | Some (Str s) \<Rightarrow>
          (let is =
             (if length s < 6
              then [(forgotPasswordOTPQueryParam, ''String must contain at least 6 character(s)'')]
              else []) @
             (if length s > 6
              then [(forgotPasswordOTPQueryParam, ''String must contain at most 6 character(s)'')]
              else [])
           in (if is = [] then Valid else Dirty, is)))"

text \<open>
  Lines 33-36: \<^verbatim>\<open>z.union([emailSchema, usernameSchema])\<close>. A union is valid when one
  option is valid; otherwise it takes the status and the issues of its first dirty
  option; when every option aborts it aborts with one issue of its own.
\<close>

definition target_schema :: "collaborators \<Rightarrow> fvalue option \<Rightarrow> status \<times> issue list" where
  "target_schema c x =
     (case x of
        Some (Str s) \<Rightarrow>
          if emailSchema c s = [] \<or> usernameSchema c s = [] then (Valid, [])
          else (Dirty, map (Pair forgotPasswordVerificationTargetQueryParam) (emailSchema c s))
      | _ \<Rightarrow> (Aborted, [(forgotPasswordVerificationTargetQueryParam, ''Invalid input'')]))"

definition merge_status :: "status \<Rightarrow> status \<Rightarrow> status" where
  "merge_status a b =
     (if a = Aborted \<or> b = Aborted then Aborted
      else if a = Dirty \<or> b = Dirty then Dirty else Valid)"

record verify_data =
  usernameOrEmail :: string
  code :: string

text \<open>
  Lines 32-38, \<^verbatim>\<open>verifySchema\<close>: the object of the two fields. The parsed object is
  present unless a field aborted. The string schema reports its issues at once, the
  union after its options have been awaited.
\<close>

definition verifySchema :: "collaborators \<Rightarrow> payload \<Rightarrow> status \<times> issue list \<times> verify_data option" where
  "verifySchema c p =
     (let (st, is_t) = target_schema c (map_of p forgotPasswordVerificationTargetQueryParam);
          (sc, is_c) = code_schema (map_of p forgotPasswordOTPQueryParam)
      in (merge_status st sc, is_c @ is_t,
          (case (map_of p forgotPasswordVerificationTargetQueryParam,
                 map_of p forgotPasswordOTPQueryParam) of
             (Some (Str t), Some (Str k)) \<Rightarrow> Some \<lparr>usernameOrEmail = t, code = k\<rparr>
           | _ \<Rightarrow> None)))"

text \<open>
  Lines 64-101, the function given to \<^verbatim>\<open>superRefine\<close>: look the record up by type,
  target and code; verify the code against the record with a window of 50; report
  \<^verbatim>\<open>Invalid code\<close> on the code field when either fails.
\<close>

definition refine :: "collaborators \<Rightarrow> verify_data \<Rightarrow> world \<Rightarrow> issue list \<times> world" where
  "refine c data w =
     (let (verification, w1) =
            verification_findFirst (verificationType c) (usernameOrEmail data) (code data) w
      in case verification of
           None \<Rightarrow> ([(forgotPasswordOTPQueryParam, ''Invalid code'')], w1)
         | Some v \<Rightarrow>
             (let (result, w2) =
                    call_verifyTOTP c (code data) (secretKey v) (algorithm v) (validSeconds v) 50 w1
              in if \<not> result then ([(forgotPasswordOTPQueryParam, ''Invalid code'')], w2)
                 else ([], w2)))"

text \<open>
  \<^verbatim>\<open>safeParseAsync\<close> of the refined schema: the refinement runs unless the object
  aborted, also when it is dirty; the parse succeeds when no issue was reported at all.
\<close>

definition safeParse ::
  "collaborators \<Rightarrow> payload \<Rightarrow> world \<Rightarrow> (issue list \<times> verify_data option) \<times> world" where
  "safeParse c p w =
     (case verifySchema c p of
        (st, is, Some data) \<Rightarrow>
          if st = Aborted then ((is, None), w)
          else (let (is_r, w1) = refine c data w
                in if is @ is_r = [] then (([], Some data), w1)
                   else ((is @ is_r, None), w1))
      | (st, is, None) \<Rightarrow> ((is, None), w))"

subsection \<open>The submission and the responses\<close>

text \<open>
  conform turns the issues into the \<^verbatim>\<open>error\<close> object of the submission: one property
  per field name, holding the messages reported for it in order
  (\<^verbatim>\<open>acceptMultipleErrors\<close> is on, line 102). A single message is stored as a bare
  string and several as an array; both are a list here. The submission has a value
  (the property \<^verbatim>\<open>value\<close>, here the field \<open>svalue\<close>) only when the parse succeeded.
\<close>

record submission =
  intent :: string
  payload :: payload
  error :: "(string \<times> string list) list"
  svalue :: "verify_data option"

definition add_issue :: "(string \<times> string list) list \<Rightarrow> issue \<Rightarrow> (string \<times> string list) list" where
  "add_issue acc i =
     (case map_of acc (fst i) of
        None \<Rightarrow> AList.update (fst i) [snd i] acc
      | Some ms \<Rightarrow> AList.update (fst i) (ms @ [snd i]) acc)"

text \<open>Lines 62-104: \<^verbatim>\<open>parse(body, { schema, acceptMultipleErrors, async })\<close>.\<close>

definition parse :: "collaborators \<Rightarrow> entries \<Rightarrow> world \<Rightarrow> (error + submission) \<times> world" where
  "parse c body w =
     (case read_entries body of
        Inl e \<Rightarrow> (Inl e, w)
      | Inr (i, p) \<Rightarrow>
          (let ((is, v), w1) = safeParse c p w
           in (Inr \<lparr>intent = i, payload = p, error = foldl add_issue [] is, svalue = v\<rparr>, w1)))"

text \<open>
  A request, as far as the route reads it: the query string of its URL, its form data
  and its \<^verbatim>\<open>Cookie\<close> header. A response is either \<^verbatim>\<open>json(data, { status })\<close>, with
  the HTTP status, the \<^verbatim>\<open>status\<close> property of the data and the submission, or
  \<^verbatim>\<open>redirect(location)\<close> with the session committed into its \<^verbatim>\<open>Set-Cookie\<close> header.
\<close>

record request =
  searchParams :: entries
  formData :: entries
  cookie :: "string option"

datatype response = Json nat string submission | Redirect string session

text \<open>
  Lines 106-137, what \<^verbatim>\<open>validate\<close> does with the submission. The failed
  \<^verbatim>\<open>invariant(user, 'User not found')\<close> is an exception, after the records are deleted.
\<close>

definition finish ::
  "collaborators \<Rightarrow> request \<Rightarrow> submission \<Rightarrow> world \<Rightarrow> (error + response) \<times> world" where
  "finish c req sub w =
     (if intent sub \<noteq> ''submit'' then (Inr (Json 200 ''idle'' sub), w)
      else case svalue sub of
        None \<Rightarrow> (Inr (Json 400 ''error'' sub), w)
      | Some data \<Rightarrow>
          (let (n, w1) = verification_deleteMany (verificationType c)
                           (usernameOrEmail data) (code data) w;
               (found, w2) = user_findFirst (usernameOrEmail data) w1
           in case found of
                None \<Rightarrow> (Inl (InvariantError ''User not found''), w2)
              | Some u \<Rightarrow>
                  (let (s, w3) = call_getSession c (cookie req) w2;
                       s' = AList.update (resetPasswordUsernameSessionKey c) (username u) s;
                       (hdr, w4) = call_commitSession s' w3
                   in (Inr (Redirect ''/reset-password'' hdr), w4))))"

text \<open>Lines 61-138: \<^verbatim>\<open>validate\<close>, the parse followed by the rest.\<close>

definition validate ::
  "collaborators \<Rightarrow> request \<Rightarrow> entries \<Rightarrow> world \<Rightarrow> (error + response) \<times> world" where
  "validate c req body w =
     (case parse c body w of
        (Inl e, w1) \<Rightarrow> (Inl e, w1)
      | (Inr sub, w1) \<Rightarrow> finish c req sub w1)"

text \<open>\<^verbatim>\<open>Object.fromEntries\<close>: the last value of a name wins.\<close>

definition fromEntries :: "entries \<Rightarrow> payload" where
  "fromEntries es = foldl (\<lambda>p (k, v). AList.update k (Str v) p) [] es"

text \<open>Lines 40-55 and 57-59.\<close>

definition loader :: "collaborators \<Rightarrow> request \<Rightarrow> world \<Rightarrow> (error + response) \<times> world" where
  "loader c req w =
     (let params = searchParams req
      in if forgotPasswordOTPQueryParam \<notin> fst ` set params then
           (Inr (Json 200 ''idle''
                  \<lparr>intent = [], payload = fromEntries params, error = [], svalue = None\<rparr>), w)
         else validate c req params w)"

definition action :: "collaborators \<Rightarrow> request \<Rightarrow> world \<Rightarrow> (error + response) \<times> world" where
  "action c req w = validate c req (formData req) w"

subsection \<open>Vocabulary of the properties\<close>

text \<open>
  An attempt: a body that conform reads without an exception, with intent \<open>i\<close>, whose
  two fields are the strings \<open>t\<close> (the target) and \<open>k\<close> (the code).
\<close>

definition attempt :: "entries \<Rightarrow> string \<Rightarrow> string \<Rightarrow> string \<Rightarrow> bool" where
  "attempt body i t k =
     (case read_entries body of
        Inl e \<Rightarrow> False
      | Inr (i', p) \<Rightarrow>
          i' = i \<and> map_of p forgotPasswordVerificationTargetQueryParam = Some (Str t)
                 \<and> map_of p forgotPasswordOTPQueryParam = Some (Str k))"

definition body_intent :: "entries \<Rightarrow> string option" where
  "body_intent body =
     (case read_entries body of Inl e \<Rightarrow> None | Inr (i, p) \<Rightarrow> Some i)"

text \<open>The two fields pass \<^verbatim>\<open>verifySchema\<close>: the input format of the route.\<close>

definition well_formed :: "collaborators \<Rightarrow> string \<Rightarrow> string \<Rightarrow> bool" where
  "well_formed c t k \<longleftrightarrow> (emailSchema c t = [] \<or> usernameSchema c t = []) \<and> length k = 6"

definition six_digits :: "string \<Rightarrow> bool" where
  "six_digits k \<longleftrightarrow> length k = 6 \<and> list_all (\<lambda>ch. ch \<in> set ''0123456789'') k"

text \<open>The pending records of a target and code, and the user a target resolves to.\<close>

definition pending :: "collaborators \<Rightarrow> string \<Rightarrow> string \<Rightarrow> world \<Rightarrow> verification list" where
  "pending c t k w = filter (matches (verificationType c) t k) (verifications w)"

definition identity :: "string \<Rightarrow> world \<Rightarrow> user option" where
  "identity t w = find (\<lambda>u. email u = t \<or> username u = t) (users w)"

text \<open>The verifier accepts the code for a record, called the way line 85 calls it.\<close>

definition totp_passes :: "collaborators \<Rightarrow> string \<Rightarrow> verification \<Rightarrow> bool" where
  "totp_passes c k r = verifyTOTP c k (secretKey r) (algorithm r) (validSeconds r) 50"

text \<open>The messages the submission holds for a field.\<close>

definition messages :: "(string \<times> string list) list \<Rightarrow> string \<Rightarrow> string list" where
  "messages errs name = (case map_of errs name of None \<Rightarrow> [] | Some ms \<Rightarrow> ms)"

definition field_errors :: "submission \<Rightarrow> string \<Rightarrow> string list" where
  "field_errors sub name = messages (error sub) name"

text \<open>The payload conform builds from a body, and the issues of the two field schemas.\<close>

definition body_payload :: "entries \<Rightarrow> payload" where
  "body_payload body =
     (case read_entries body of Inl e \<Rightarrow> [] | Inr (i, p) \<Rightarrow> p)"

definition base_issues :: "collaborators \<Rightarrow> string \<Rightarrow> string \<Rightarrow> issue list" where
  "base_issues c t k = snd (code_schema (Some (Str k))) @ snd (target_schema c (Some (Str t)))"

text \<open>Projections of the trace: calls of the verifier, store lookups, deletions, session calls.\<close>

fun is_verifier_call :: "event \<Rightarrow> bool" where
  "is_verifier_call (VerifyTOTP k key alg secs win) = True"
| "is_verifier_call e = False"

fun is_lookup :: "event \<Rightarrow> bool" where
  "is_lookup (FindFirstVerification ty t k) = True"
| "is_lookup e = False"

fun is_deletion :: "event \<Rightarrow> bool" where
  "is_deletion (DeleteManyVerification ty t k) = True"
| "is_deletion e = False"

fun is_session_call :: "event \<Rightarrow> bool" where
  "is_session_call (GetSession ck) = True"
| "is_session_call (CommitSession s) = True"
| "is_session_call e = False"

definition verifier_calls :: "world \<Rightarrow> event list" where
  "verifier_calls w = filter is_verifier_call (trace w)"

definition lookups :: "world \<Rightarrow> event list" where
  "lookups w = filter is_lookup (trace w)"

definition deletions :: "world \<Rightarrow> event list" where
  "deletions w = filter is_deletion (trace w)"

definition session_calls :: "world \<Rightarrow> event list" where
  "session_calls w = filter is_session_call (trace w)"

definition is_redirect :: "error + response \<Rightarrow> bool" where
  "is_redirect out = (case out of Inr (Redirect l s) \<Rightarrow> True | _ \<Rightarrow> False)"

text \<open>
  A rejection: the validation failure the user sees, a JSON response whose submission
  has no value and holds \<^verbatim>\<open>Invalid code\<close> as the last message of the code field.
\<close>

definition is_rejection :: "error + response \<Rightarrow> bool" where
  "is_rejection out =
     (case out of
        Inr (Json st s sub) \<Rightarrow>
          svalue sub = None \<and> field_errors sub forgotPasswordOTPQueryParam \<noteq> []
          \<and> last (field_errors sub forgotPasswordOTPQueryParam) = ''Invalid code''
      | _ \<Rightarrow> False)"

subsection \<open>Two attempts\<close>

text \<open>
  Every \<^verbatim>\<open>await\<close> of \<^verbatim>\<open>validate\<close> is a point where the server may run another request.
  Two schedules of two requests: one after the other, and interleaved so that both
  parses (lines 62-104) run before either request goes on with lines 106-137.
\<close>

definition run_finish ::
  "collaborators \<Rightarrow> request \<Rightarrow> (error + submission) \<Rightarrow> world \<Rightarrow> (error + response) \<times> world" where
  "run_finish c req r w = (case r of Inl e \<Rightarrow> (Inl e, w) | Inr sub \<Rightarrow> finish c req sub w)"

definition sequential ::
  "collaborators \<Rightarrow> request \<Rightarrow> entries \<Rightarrow> collaborators \<Rightarrow> request \<Rightarrow> entries \<Rightarrow> world
     \<Rightarrow> (error + response) \<times> (error + response) \<times> world" where
  "sequential c1 req1 body1 c2 req2 body2 w =
     (let (out1, w1) = validate c1 req1 body1 w;
          (out2, w2) = validate c2 req2 body2 w1
      in (out1, out2, w2))"

definition interleaved ::
  "collaborators \<Rightarrow> request \<Rightarrow> entries \<Rightarrow> collaborators \<Rightarrow> request \<Rightarrow> entries \<Rightarrow> world
     \<Rightarrow> (error + response) \<times> (error + response) \<times> world" where
  "interleaved c1 req1 body1 c2 req2 body2 w =
     (let (r1, wa) = parse c1 body1 w;
          (r2, wb) = parse c2 body2 wa;
          (out1, wc) = run_finish c1 req1 r1 wb;
          (out2, wd) = run_finish c2 req2 r2 wc
      in (out1, out2, wd))"

subsection \<open>A concrete setting\<close>

text \<open>
  One pending record for \<^verbatim>\<open>kody@kcd.dev\<close> with code \<^verbatim>\<open>123456\<close>, the account it belongs
  to, and collaborators whose verifier accepts exactly that code.
\<close>

definition demo_collaborators :: collaborators where
  "demo_collaborators =
     \<lparr>verificationType = ''forgot-password'',
      resetPasswordUsernameSessionKey = ''resetPasswordUsername'',
      emailSchema = (\<lambda>s. if CHR ''@'' \<in> set s then [] else [''Email is invalid'']),
      usernameSchema = (\<lambda>s. if 3 \<le> length s \<and> CHR ''@'' \<notin> set s then []
                             else [''Username is invalid'']),
      verifyTOTP = (\<lambda>k key alg secs win. k = ''123456''),
      getSession = (\<lambda>ck. case ck of None \<Rightarrow> [] | Some x \<Rightarrow> [(''userId'', x)])\<rparr>"

definition demo_world :: world where
  "demo_world =
     \<lparr>verifications =
        [\<lparr>vtype = ''forgot-password'', verificationTarget = ''kody@kcd.dev'',
          otp = ''123456'', algorithm = ''SHA1'', secretKey = ''KEY'', validSeconds = 30\<rparr>],
      users = [\<lparr>email = ''kody@kcd.dev'', username = ''kody''\<rparr>],
      trace = []\<rparr>"

definition demo_world_otp :: "string \<Rightarrow> world" where
  "demo_world_otp k =
     demo_world\<lparr>verifications := map (\<lambda>v. v\<lparr>otp := k\<rparr>) (verifications demo_world)\<rparr>"

definition demo_body :: "string \<Rightarrow> string \<Rightarrow> entries" where
  "demo_body t k =
     [(forgotPasswordVerificationTargetQueryParam, t), (forgotPasswordOTPQueryParam, k)]"

definition demo_request :: "string option \<Rightarrow> request" where
  "demo_request ck = \<lparr>searchParams = [], formData = [], cookie = ck\<rparr>"


section \<open>Properties\<close>

subsection \<open>How the parse and the rest of \<^verbatim>\<open>validate\<close> unfold on an attempt\<close>

lemma attemptD:
  assumes "attempt body i t k"
  shows "read_entries body = Inr (i, body_payload body)"
    and "map_of (body_payload body) forgotPasswordVerificationTargetQueryParam = Some (Str t)"
    and "map_of (body_payload body) forgotPasswordOTPQueryParam = Some (Str k)"
  using assms by (auto simp: attempt_def body_payload_def split: sum.splits)


lemma base_issues_Nil: "base_issues c t k = [] \<longleftrightarrow> well_formed c t k"
  by (auto simp: base_issues_def well_formed_def code_schema_def target_schema_def Let_def)

lemma verifySchema_strings:
  assumes "map_of p forgotPasswordVerificationTargetQueryParam = Some (Str t)"
    and "map_of p forgotPasswordOTPQueryParam = Some (Str k)"
  shows "\<exists>st. st \<noteq> Aborted \<and>
     verifySchema c p = (st, base_issues c t k, Some \<lparr>usernameOrEmail = t, code = k\<rparr>)"
  using assms
  by (simp add: verifySchema_def base_issues_def code_schema_def target_schema_def
      merge_status_def Let_def split: prod.splits)

lemma safeParse_strings:
  assumes "map_of p forgotPasswordVerificationTargetQueryParam = Some (Str t)"
    and "map_of p forgotPasswordOTPQueryParam = Some (Str k)"
  shows "safeParse c p w =
     (let (is_r, w1) = refine c \<lparr>usernameOrEmail = t, code = k\<rparr> w
      in if base_issues c t k @ is_r = [] then (([], Some \<lparr>usernameOrEmail = t, code = k\<rparr>), w1)
         else ((base_issues c t k @ is_r, None), w1))"
proof -
  from verifySchema_strings [OF assms, of c] obtain st where
    "st \<noteq> Aborted" "verifySchema c p = (st, base_issues c t k, Some \<lparr>usernameOrEmail = t, code = k\<rparr>)"
    by blast
  then show ?thesis by (simp add: safeParse_def)
qed

lemma pending_Nil_iff:
  "pending c t k w = [] \<longleftrightarrow> find (matches (verificationType c) t k) (verifications w) = None"
  by (auto simp: pending_def find_None_iff filter_empty_conv)

lemma refine_none:
  assumes "find (matches (verificationType c) t k) (verifications w) = None"
  shows "refine c \<lparr>usernameOrEmail = t, code = k\<rparr> w =
     ([(forgotPasswordOTPQueryParam, ''Invalid code'')],
      w\<lparr>trace := trace w @ [FindFirstVerification (verificationType c) t k]\<rparr>)"
  using assms by (simp add: refine_def verification_findFirst_def)

lemma refine_some:
  assumes "find (matches (verificationType c) t k) (verifications w) = Some r"
  shows "refine c \<lparr>usernameOrEmail = t, code = k\<rparr> w =
     (if totp_passes c k r then [] else [(forgotPasswordOTPQueryParam, ''Invalid code'')],
      w\<lparr>trace := trace w @ [FindFirstVerification (verificationType c) t k,
                            VerifyTOTP k (secretKey r) (algorithm r) (validSeconds r) 50]\<rparr>)"
  using assms
  by (simp add: refine_def verification_findFirst_def call_verifyTOTP_def totp_passes_def)


lemma messages_add_issue:
  "messages (add_issue acc i) n = messages acc n @ (if fst i = n then [snd i] else [])"
  by (auto simp: messages_def add_issue_def update_conv' split: option.splits)

lemma messages_foldl:
  "messages (foldl add_issue acc is) n = messages acc n @ map snd (filter (\<lambda>i. fst i = n) is)"
  by (induction "is" arbitrary: acc) (auto simp: messages_add_issue)

lemma messages_issues:
  "messages (foldl add_issue [] is) n = map snd (filter (\<lambda>i. fst i = n) is)"
  by (simp add: messages_foldl) (simp add: messages_def)

lemma parse_attempt:
  assumes "attempt body i t k"
  shows "parse c body w =
     (let (is_r, w1) = refine c \<lparr>usernameOrEmail = t, code = k\<rparr> w
      in (Inr \<lparr>intent = i, payload = body_payload body,
               error = foldl add_issue [] (base_issues c t k @ is_r),
               svalue = (if base_issues c t k @ is_r = []
                         then Some \<lparr>usernameOrEmail = t, code = k\<rparr> else None)\<rparr>, w1))"
  using attemptD [OF assms]
  by (simp add: parse_def safeParse_strings [of _ t k] split: prod.splits)

lemma validate_invalid_code:
  assumes "attempt body i t k"
    and "refine c \<lparr>usernameOrEmail = t, code = k\<rparr> w =
           ([(forgotPasswordOTPQueryParam, ''Invalid code'')], w1)"
  shows "validate c req body w =
     (Inr (Json (if i = ''submit'' then 400 else 200) (if i = ''submit'' then ''error'' else ''idle'')
            \<lparr>intent = i, payload = body_payload body,
             error = foldl add_issue []
                       (base_issues c t k @ [(forgotPasswordOTPQueryParam, ''Invalid code'')]),
             svalue = None\<rparr>), w1)"
  using assms(2) by (simp add: validate_def parse_attempt [OF assms(1)] finish_def)

lemma finish_value:
  assumes "intent sub = ''submit''" and "svalue sub = Some \<lparr>usernameOrEmail = t, code = k\<rparr>"
  shows "finish c req sub w =
     (case identity t w of
        None \<Rightarrow>
          (Inl (InvariantError ''User not found''),
           w\<lparr>verifications := filter (\<lambda>v. \<not> matches (verificationType c) t k v) (verifications w),
             trace := trace w @ [DeleteManyVerification (verificationType c) t k, FindFirstUser t]\<rparr>)
      | Some u \<Rightarrow>
          (Inr (Redirect ''/reset-password''
                 (AList.update (resetPasswordUsernameSessionKey c) (username u)
                    (getSession c (cookie req)))),
           w\<lparr>verifications := filter (\<lambda>v. \<not> matches (verificationType c) t k v) (verifications w),
             trace := trace w @
               [DeleteManyVerification (verificationType c) t k, FindFirstUser t,
                GetSession (cookie req),
                CommitSession (AList.update (resetPasswordUsernameSessionKey c) (username u)
                                 (getSession c (cookie req)))]\<rparr>))"
  using assms
  by (simp add: finish_def verification_deleteMany_def user_findFirst_def identity_def
      call_getSession_def call_commitSession_def Let_def split: option.splits)

lemma validate_verified:
  assumes "attempt body ''submit'' t k" and "well_formed c t k"
    and "refine c \<lparr>usernameOrEmail = t, code = k\<rparr> w = ([], w1)"
  shows "validate c req body w =
     finish c req \<lparr>intent = ''submit'', payload = body_payload body, error = [],
                   svalue = Some \<lparr>usernameOrEmail = t, code = k\<rparr>\<rparr> w1"
  using assms(2,3) base_issues_Nil [of c t k]
  by (simp add: validate_def parse_attempt [OF assms(1)])


lemma pending_after_delete:
  "pending c t k (w\<lparr>verifications := filter (\<lambda>v. \<not> matches (verificationType c) t k v) (verifications w),
                     trace := tr\<rparr>) = []"
  by (simp add: pending_def)

lemma is_rejection_invalid_code:
  "is_rejection (Inr (Json st s
      \<lparr>intent = i, payload = p,
       error = foldl add_issue [] (bs @ [(forgotPasswordOTPQueryParam, ''Invalid code'')]),
       svalue = None\<rparr>))"
  by (simp add: is_rejection_def field_errors_def messages_issues del: foldl_append)

lemma rejected_when_none_pending:
  assumes "attempt body i t k"
    and "find (matches (verificationType c) t k) (verifications w) = None"
  shows "is_rejection (fst (validate c req body w))"
    and "snd (validate c req body w) =
           w\<lparr>trace := trace w @ [FindFirstVerification (verificationType c) t k]\<rparr>"
  unfolding validate_invalid_code [OF assms(1) refine_none [OF assms(2)]]
  by (simp_all add: is_rejection_invalid_code del: foldl_append)

subsection \<open>Single use\<close>

text \<open>
  Claim C1. A submitted attempt (intent \<^verbatim>\<open>submit\<close>, fields in the route's input format)
  whose type, target and code match a pending record \<open>r\<close> and whose code passes the
  verifier: \<^verbatim>\<open>validate\<close> leaves no record matching that type, target and code; it ends
  either in the redirect or in the failed invariant; the deletion is in the trace before
  the session is read and committed; and any later attempt with the same target and
  code, whatever its intent and whatever the verifier answers by then, is rejected with
  \<^verbatim>\<open>Invalid code\<close>.
\<close>

theorem consumed_before_success:
  assumes "attempt body ''submit'' t k" and "well_formed c t k"
    and "find (matches (verificationType c) t k) (verifications w) = Some r"
    and "totp_passes c k r"
  shows "let (out, w') = validate c req body w in
     pending c t k w' = [] \<and>
     (is_redirect out \<or> out = Inl (InvariantError ''User not found'')) \<and>
     trace w' = trace w @
       [FindFirstVerification (verificationType c) t k,
        VerifyTOTP k (secretKey r) (algorithm r) (validSeconds r) 50,
        DeleteManyVerification (verificationType c) t k,
        FindFirstUser t] @
       (case out of Inr (Redirect l s) \<Rightarrow> [GetSession (cookie req), CommitSession s] | _ \<Rightarrow> []) \<and>
     (\<forall>c' req' body' i'. verificationType c' = verificationType c \<and> attempt body' i' t k \<longrightarrow>
        is_rejection (fst (validate c' req' body' w')))"
proof -
  obtain out w' where v: "validate c req body w = (out, w')" by (cases "validate c req body w")
  have r: "refine c \<lparr>usernameOrEmail = t, code = k\<rparr> w =
     ([], w\<lparr>trace := trace w @ [FindFirstVerification (verificationType c) t k,
                            VerifyTOTP k (secretKey r) (algorithm r) (validSeconds r) 50]\<rparr>)"
    using assms(4) by (simp add: refine_some [OF assms(3)])
  note vv = validate_verified [OF assms(1,2) r, of req]
  have p: "pending c t k w' = []"
    using v unfolding vv
    by (auto simp: finish_value identity_def pending_after_delete split: option.splits)
  have o: "is_redirect out \<or> out = Inl (InvariantError ''User not found'')"
    using v unfolding vv
    by (auto simp: finish_value is_redirect_def split: option.splits)
  have tr: "trace w' = trace w @
       [FindFirstVerification (verificationType c) t k,
        VerifyTOTP k (secretKey r) (algorithm r) (validSeconds r) 50,
        DeleteManyVerification (verificationType c) t k,
        FindFirstUser t] @
       (case out of Inr (Redirect l s) \<Rightarrow> [GetSession (cookie req), CommitSession s] | _ \<Rightarrow> [])"
    using v unfolding vv
    by (auto simp: finish_value identity_def split: option.splits)
  have rp: "is_rejection (fst (validate c' req' body' w'))"
    if "verificationType c' = verificationType c" "attempt body' i' t k" for c' req' body' i'
    using rejected_when_none_pending(1) [OF that(2), of c' w' req'] p that(1)
    by (simp add: pending_Nil_iff)
  show ?thesis using p o tr rp by (auto simp: v)
qed

lemmas demo_defs = demo_collaborators_def demo_world_def demo_body_def demo_request_def
  forgotPasswordOTPQueryParam_def forgotPasswordVerificationTargetQueryParam_def

lemmas conform_defs = read_entries_def getIntent_def resolve_def setValue_def

lemma demo_attempt: "attempt (demo_body t k) ''submit'' t k"
  by (simp add: attempt_def demo_defs conform_defs)

theorem consumed_before_success_witness:
  "attempt (demo_body ''kody@kcd.dev'' ''123456'') ''submit'' ''kody@kcd.dev'' ''123456'' \<and>
   well_formed demo_collaborators ''kody@kcd.dev'' ''123456'' \<and>
   find (matches (verificationType demo_collaborators) ''kody@kcd.dev'' ''123456'')
     (verifications demo_world) = Some (hd (verifications demo_world)) \<and>
   totp_passes demo_collaborators ''123456'' (hd (verifications demo_world)) \<and>
   pending demo_collaborators ''kody@kcd.dev'' ''123456''
     (snd (validate demo_collaborators (demo_request None)
            (demo_body ''kody@kcd.dev'' ''123456'') demo_world)) = [] \<and>
   is_rejection (fst (validate demo_collaborators (demo_request None)
     (demo_body ''kody@kcd.dev'' ''123456'')
     (snd (validate demo_collaborators (demo_request None)
            (demo_body ''kody@kcd.dev'' ''123456'') demo_world))))"
proof -
  have h1: "attempt (demo_body ''kody@kcd.dev'' ''123456'') ''submit'' ''kody@kcd.dev'' ''123456''"
    by (rule demo_attempt)
  have h2: "well_formed demo_collaborators ''kody@kcd.dev'' ''123456''"
    by (simp add: well_formed_def demo_defs)
  have h3: "find (matches (verificationType demo_collaborators) ''kody@kcd.dev'' ''123456'')
     (verifications demo_world) = Some (hd (verifications demo_world))"
    by (simp add: matches_def demo_defs)
  have h4: "totp_passes demo_collaborators ''123456'' (hd (verifications demo_world))"
    by (simp add: totp_passes_def demo_defs)
  note th = consumed_before_success [OF h1 h2 h3 h4, of "demo_request None"]
  have a: "pending demo_collaborators ''kody@kcd.dev'' ''123456''
     (snd (validate demo_collaborators (demo_request None)
            (demo_body ''kody@kcd.dev'' ''123456'') demo_world)) = []"
    using th by (simp add: split_def Let_def)
  have b: "is_rejection (fst (validate demo_collaborators (demo_request None)
     (demo_body ''kody@kcd.dev'' ''123456'')
     (snd (validate demo_collaborators (demo_request None)
            (demo_body ''kody@kcd.dev'' ''123456'') demo_world))))"
    using th h1 by (simp add: split_def Let_def) blast
  show ?thesis using h1 h2 h3 h4 a b by simp
qed


subsection \<open>What the two halves of \<^verbatim>\<open>validate\<close> leave alone\<close>

lemma validate_attempt:
  assumes "attempt body i t k"
  shows "validate c req body w =
     (let (is_r, w1) = refine c \<lparr>usernameOrEmail = t, code = k\<rparr> w
      in finish c req
           \<lparr>intent = i, payload = body_payload body,
            error = foldl add_issue [] (base_issues c t k @ is_r),
            svalue = (if base_issues c t k @ is_r = []
                      then Some \<lparr>usernameOrEmail = t, code = k\<rparr> else None)\<rparr> w1)"
  by (simp add: validate_def parse_attempt [OF assms] split_def Let_def)

lemma refine_frame:
  "verifications (snd (refine c d w)) = verifications w"
  "users (snd (refine c d w)) = users w"
  "deletions (snd (refine c d w)) = deletions w"
  "session_calls (snd (refine c d w)) = session_calls w"
  by (simp_all add: refine_def verification_findFirst_def call_verifyTOTP_def deletions_def
      session_calls_def split: option.splits)

lemma safeParse_frame:
  "verifications (snd (safeParse c p w)) = verifications w"
  "users (snd (safeParse c p w)) = users w"
  "deletions (snd (safeParse c p w)) = deletions w"
  "session_calls (snd (safeParse c p w)) = session_calls w"
  by (simp_all add: safeParse_def refine_frame split_def Let_def split: prod.splits option.splits)

lemma parse_frame:
  "verifications (snd (parse c body w)) = verifications w"
  "users (snd (parse c body w)) = users w"
  "deletions (snd (parse c body w)) = deletions w"
  "session_calls (snd (parse c body w)) = session_calls w"
  by (simp_all add: parse_def safeParse_frame split_def Let_def split: sum.splits)

lemma finish_frame:
  "users (snd (finish c req sub w)) = users w"
  "verifier_calls (snd (finish c req sub w)) = verifier_calls w"
  "lookups (snd (finish c req sub w)) = lookups w"
  by (simp_all add: finish_def verification_deleteMany_def user_findFirst_def call_getSession_def
      call_commitSession_def verifier_calls_def lookups_def Let_def split: option.splits)

lemma finish_not_submit:
  "intent sub \<noteq> ''submit'' \<Longrightarrow> finish c req sub w = (Inr (Json 200 ''idle'' sub), w)"
  by (simp add: finish_def)

lemma finish_redirect:
  assumes "fst (finish c req sub w) = Inr (Redirect l s)"
  shows "\<exists>d u. intent sub = ''submit'' \<and> svalue sub = Some d \<and>
           identity (usernameOrEmail d) w = Some u \<and> l = ''/reset-password'' \<and>
           s = AList.update (resetPasswordUsernameSessionKey c) (username u)
                 (getSession c (cookie req))"
  using assms
  by (auto simp: finish_def verification_deleteMany_def user_findFirst_def call_getSession_def
      call_commitSession_def identity_def Let_def split: option.splits if_splits)

lemma identity_Some:
  "identity t w = Some u \<Longrightarrow> u \<in> set (users w) \<and> (email u = t \<or> username u = t)"
  by (auto simp: identity_def find_Some_iff)

subsection \<open>One rejection for two causes\<close>

text \<open>
  Claim C3. The same body is handled in a state \<open>wa\<close> where the lookup finds no record
  and in a state \<open>wb\<close> where it finds the record \<open>r\<close> but the verifier refuses the code.
  The two responses are equal; each is a validation failure without a value whose last
  message on the code field is \<^verbatim>\<open>Invalid code\<close>; and when the two fields are in the
  route's input format that message is the only content of the error object.
\<close>

theorem same_rejection:
  assumes "attempt body i t k"
    and "find (matches (verificationType c) t k) (verifications wa) = None"
    and "find (matches (verificationType c) t k) (verifications wb) = Some r"
    and "\<not> totp_passes c k r"
  shows "fst (validate c reqa body wa) = fst (validate c reqb body wb) \<and>
     is_rejection (fst (validate c reqa body wa)) \<and>
     (well_formed c t k \<longrightarrow>
        (\<exists>st s sub. fst (validate c reqa body wa) = Inr (Json st s sub) \<and>
           error sub = [(forgotPasswordOTPQueryParam, [''Invalid code''])]))"
proof -
  let ?d = "\<lparr>usernameOrEmail = t, code = k\<rparr>"
  let ?wb = "wb\<lparr>trace := trace wb @ [FindFirstVerification (verificationType c) t k,
                            VerifyTOTP k (secretKey r) (algorithm r) (validSeconds r) 50]\<rparr>"
  have rb: "refine c ?d wb = ([(forgotPasswordOTPQueryParam, ''Invalid code'')], ?wb)"
    using assms(4) by (simp add: refine_some [OF assms(3)])
  note va = validate_invalid_code [OF assms(1) refine_none [OF assms(2)], of reqa]
  note vb = validate_invalid_code [OF assms(1) rb, of reqb]
  have same: "fst (validate c reqa body wa) = fst (validate c reqb body wb)"
    unfolding va vb by simp
  have rej: "is_rejection (fst (validate c reqa body wa))"
    by (rule rejected_when_none_pending(1) [OF assms(1,2)])
  have only: "\<exists>st s sub. fst (validate c reqa body wa) = Inr (Json st s sub) \<and>
           error sub = [(forgotPasswordOTPQueryParam, [''Invalid code''])]"
    if "well_formed c t k"
    unfolding va using that base_issues_Nil [of c t k] by (simp add: add_issue_def)
  show ?thesis using same rej only by blast
qed

theorem same_rejection_witness:
  "attempt (demo_body ''kody@kcd.dev'' ''654321'') ''submit'' ''kody@kcd.dev'' ''654321'' \<and>
   find (matches (verificationType demo_collaborators) ''kody@kcd.dev'' ''654321'')
     (verifications demo_world) = None \<and>
   find (matches (verificationType demo_collaborators) ''kody@kcd.dev'' ''654321'')
     (verifications (demo_world_otp ''654321'')) = Some (hd (verifications (demo_world_otp ''654321''))) \<and>
   \<not> totp_passes demo_collaborators ''654321'' (hd (verifications (demo_world_otp ''654321''))) \<and>
   well_formed demo_collaborators ''kody@kcd.dev'' ''654321'' \<and>
   fst (validate demo_collaborators (demo_request None) (demo_body ''kody@kcd.dev'' ''654321'')
          demo_world) =
   fst (validate demo_collaborators (demo_request None) (demo_body ''kody@kcd.dev'' ''654321'')
          (demo_world_otp ''654321'')) \<and>
   is_rejection (fst (validate demo_collaborators (demo_request None)
                        (demo_body ''kody@kcd.dev'' ''654321'') demo_world))"
proof -
  have h1: "attempt (demo_body ''kody@kcd.dev'' ''654321'') ''submit'' ''kody@kcd.dev'' ''654321''"
    by (rule demo_attempt)
  have h2: "find (matches (verificationType demo_collaborators) ''kody@kcd.dev'' ''654321'')
     (verifications demo_world) = None"
    by (simp add: matches_def demo_defs)
  have h3: "find (matches (verificationType demo_collaborators) ''kody@kcd.dev'' ''654321'')
     (verifications (demo_world_otp ''654321'')) = Some (hd (verifications (demo_world_otp ''654321'')))"
    by (simp add: matches_def demo_defs demo_world_otp_def)
  have h4: "\<not> totp_passes demo_collaborators ''654321'' (hd (verifications (demo_world_otp ''654321'')))"
    by (simp add: totp_passes_def demo_defs)
  have h5: "well_formed demo_collaborators ''kody@kcd.dev'' ''654321''"
    by (simp add: well_formed_def demo_defs)
  show ?thesis
    using h1 h2 h3 h4 h5
      same_rejection [OF h1 h2 h3 h4, of "demo_request None" "demo_request None"]
    by blast
qed

subsection \<open>The call of the verifier\<close>

text \<open>
  Claim C4. When the lookup of an attempt finds the record \<open>r\<close>, \<^verbatim>\<open>validate\<close> calls the
  verifier exactly once, with the submitted code, the secret key, the algorithm and the
  step length of \<open>r\<close>, and the window 50.
\<close>

theorem verifier_called_with_record:
  assumes "attempt body i t k"
    and "find (matches (verificationType c) t k) (verifications w) = Some r"
  shows "verifier_calls (snd (validate c req body w)) =
     verifier_calls w @ [VerifyTOTP k (secretKey r) (algorithm r) (validSeconds r) 50]"
  by (simp add: validate_attempt [OF assms(1)] refine_some [OF assms(2)] finish_frame)
     (simp add: verifier_calls_def)

theorem verifier_called_with_record_witness:
  "attempt (demo_body ''kody@kcd.dev'' ''123456'') ''submit'' ''kody@kcd.dev'' ''123456'' \<and>
   find (matches (verificationType demo_collaborators) ''kody@kcd.dev'' ''123456'')
     (verifications demo_world) = Some (hd (verifications demo_world)) \<and>
   verifier_calls (snd (validate demo_collaborators (demo_request None)
                          (demo_body ''kody@kcd.dev'' ''123456'') demo_world)) =
     [VerifyTOTP ''123456'' ''KEY'' ''SHA1'' 30 50]"
proof -
  have h1: "attempt (demo_body ''kody@kcd.dev'' ''123456'') ''submit'' ''kody@kcd.dev'' ''123456''"
    by (rule demo_attempt)
  have h2: "find (matches (verificationType demo_collaborators) ''kody@kcd.dev'' ''123456'')
     (verifications demo_world) = Some (hd (verifications demo_world))"
    by (simp add: matches_def demo_defs)
  show ?thesis
    using h1 h2 verifier_called_with_record [OF h1 h2, of "demo_request None"]
    by (simp add: verifier_calls_def demo_world_def)
qed


subsection \<open>Codes that are not six digits\<close>

lemmas route_defs = validate_def parse_def safeParse_def verifySchema_def refine_def finish_def
  code_schema_def target_schema_def merge_status_def conform_defs add_issue_def
  verification_findFirst_def verification_deleteMany_def user_findFirst_def call_verifyTOTP_def
  call_getSession_def call_commitSession_def matches_def

lemma wrong_length_never_verified:
  assumes "attempt body i t k" and "length k \<noteq> 6"
  shows "\<not> is_redirect (fst (validate c req body w))"
    and "verifications (snd (validate c req body w)) = verifications w"
proof -
  have "base_issues c t k \<noteq> []"
    using assms(2) by (simp add: base_issues_Nil well_formed_def)
  then show "\<not> is_redirect (fst (validate c req body w))"
    and "verifications (snd (validate c req body w)) = verifications w"
    by (simp_all add: validate_attempt [OF assms(1)] split_def Let_def finish_def is_redirect_def
        refine_frame)
qed

lemma code_not_a_string_stops_early:
  assumes "read_entries body = Inr (i, p)"
    and "\<forall>k. map_of p forgotPasswordOTPQueryParam \<noteq> Some (Str k)"
  shows "snd (validate c req body w) = w" and "\<not> is_redirect (fst (validate c req body w))"
  using assms
  by (auto simp: validate_def parse_def safeParse_def verifySchema_def finish_def is_redirect_def
      split_def Let_def split: option.splits fvalue.splits)

text \<open>
  Claim C5, as amended. The schema of the code is \<^verbatim>\<open>z.string().min(6).max(6)\<close>: it looks
  at the length only, and a failed length check does not keep the refinement from
  running. So the store is looked up for every attempt whose two fields are strings.
  What holds for a code that is not six digits, in a store whose codes are all six
  digits: the attempt is rejected with \<^verbatim>\<open>Invalid code\<close>, the verifier is not called,
  the lookup is the only call made, and the store is as before.
\<close>

theorem malformed_code_rejected:
  assumes "attempt body i t k" and "\<not> six_digits k"
    and "list_all (\<lambda>v. six_digits (otp v)) (verifications w)"
  shows "let (out, w') = validate c req body w in
     is_rejection out \<and> verifier_calls w' = verifier_calls w \<and>
     lookups w' = lookups w @ [FindFirstVerification (verificationType c) t k] \<and>
     verifications w' = verifications w \<and> users w' = users w \<and>
     session_calls w' = session_calls w"
proof -
  have none: "find (matches (verificationType c) t k) (verifications w) = None"
    using assms(2,3) by (auto simp: find_None_iff matches_def list_all_iff)
  note r = rejected_when_none_pending [OF assms(1) none, of req]
  show ?thesis
    using r(1) unfolding split_def Let_def r(2)
    by (simp add: verifier_calls_def lookups_def session_calls_def)
qed

theorem malformed_code_rejected_witness:
  "attempt (demo_body ''kody@kcd.dev'' ''abcdef'') ''submit'' ''kody@kcd.dev'' ''abcdef'' \<and>
   \<not> six_digits ''abcdef'' \<and>
   list_all (\<lambda>v. six_digits (otp v)) (verifications demo_world) \<and>
   is_rejection (fst (validate demo_collaborators (demo_request None)
                        (demo_body ''kody@kcd.dev'' ''abcdef'') demo_world)) \<and>
   verifier_calls (snd (validate demo_collaborators (demo_request None)
                          (demo_body ''kody@kcd.dev'' ''abcdef'') demo_world)) = []"
proof -
  have h1: "attempt (demo_body ''kody@kcd.dev'' ''abcdef'') ''submit'' ''kody@kcd.dev'' ''abcdef''"
    by (rule demo_attempt)
  have h2: "\<not> six_digits ''abcdef''"
    by (simp add: six_digits_def)
  have h3: "list_all (\<lambda>v. six_digits (otp v)) (verifications demo_world)"
    by (simp add: six_digits_def demo_world_def)
  show ?thesis
    using h1 h2 h3 malformed_code_rejected [OF h1 h2 h3, of demo_collaborators "demo_request None"]
    by (simp add: split_def Let_def verifier_calls_def demo_world_def)
qed

text \<open>
  Claim C5, as stated, fails: a code of six letters is looked up in the store, and when
  the store holds a record with that very code the verifier is called on it; a code of
  five digits is looked up as well.
\<close>

theorem malformed_code_is_looked_up:
  "attempt (demo_body ''kody@kcd.dev'' ''abcdef'') ''submit'' ''kody@kcd.dev'' ''abcdef'' \<and>
   \<not> six_digits ''abcdef'' \<and>
   lookups (snd (validate demo_collaborators (demo_request None)
                   (demo_body ''kody@kcd.dev'' ''abcdef'') demo_world)) =
     [FindFirstVerification ''forgot-password'' ''kody@kcd.dev'' ''abcdef''] \<and>
   trace (snd (validate demo_collaborators (demo_request None)
                 (demo_body ''kody@kcd.dev'' ''abcdef'') (demo_world_otp ''abcdef''))) =
     [FindFirstVerification ''forgot-password'' ''kody@kcd.dev'' ''abcdef'',
      VerifyTOTP ''abcdef'' ''KEY'' ''SHA1'' 30 50] \<and>
   attempt (demo_body ''kody@kcd.dev'' ''12345'') ''submit'' ''kody@kcd.dev'' ''12345'' \<and>
   \<not> six_digits ''12345'' \<and>
   lookups (snd (validate demo_collaborators (demo_request None)
                   (demo_body ''kody@kcd.dev'' ''12345'') demo_world)) =
     [FindFirstVerification ''forgot-password'' ''kody@kcd.dev'' ''12345'']"
  by (simp add: demo_attempt six_digits_def lookups_def)
     (simp add: route_defs demo_defs demo_world_otp_def Let_def)

subsection \<open>The missing identity\<close>

text \<open>
  Claim C6. A submitted, well-formed attempt matches the record \<open>r\<close> and passes the
  verifier, but no user has the target as email or as username: \<^verbatim>\<open>validate\<close> ends in
  the exception of the failed invariant, not in a response, and makes no session call.
  The records were deleted before.
\<close>

theorem missing_identity_is_fatal:
  assumes "attempt body ''submit'' t k" and "well_formed c t k"
    and "find (matches (verificationType c) t k) (verifications w) = Some r"
    and "totp_passes c k r"
    and "identity t w = None"
  shows "fst (validate c req body w) = Inl (InvariantError ''User not found'') \<and>
     session_calls (snd (validate c req body w)) = session_calls w \<and>
     pending c t k (snd (validate c req body w)) = []"
proof -
  let ?w1 = "w\<lparr>trace := trace w @ [FindFirstVerification (verificationType c) t k,
                            VerifyTOTP k (secretKey r) (algorithm r) (validSeconds r) 50]\<rparr>"
  have r: "refine c \<lparr>usernameOrEmail = t, code = k\<rparr> w = ([], ?w1)"
    using assms(4) by (simp add: refine_some [OF assms(3)])
  have i: "identity t ?w1 = None"
    using assms(5) by (simp add: identity_def)
  show ?thesis
    unfolding validate_verified [OF assms(1,2) r]
    by (simp add: finish_value i session_calls_def pending_def)
qed

theorem missing_identity_is_fatal_witness:
  "attempt (demo_body ''kody@kcd.dev'' ''123456'') ''submit'' ''kody@kcd.dev'' ''123456'' \<and>
   well_formed demo_collaborators ''kody@kcd.dev'' ''123456'' \<and>
   find (matches (verificationType demo_collaborators) ''kody@kcd.dev'' ''123456'')
     (verifications (demo_world\<lparr>users := []\<rparr>)) = Some (hd (verifications demo_world)) \<and>
   totp_passes demo_collaborators ''123456'' (hd (verifications demo_world)) \<and>
   identity ''kody@kcd.dev'' (demo_world\<lparr>users := []\<rparr>) = None \<and>
   fst (validate demo_collaborators (demo_request None) (demo_body ''kody@kcd.dev'' ''123456'')
          (demo_world\<lparr>users := []\<rparr>)) = Inl (InvariantError ''User not found'')"
proof -
  have h1: "attempt (demo_body ''kody@kcd.dev'' ''123456'') ''submit'' ''kody@kcd.dev'' ''123456''"
    by (rule demo_attempt)
  have h2: "well_formed demo_collaborators ''kody@kcd.dev'' ''123456''"
    by (simp add: well_formed_def demo_defs)
  have h3: "find (matches (verificationType demo_collaborators) ''kody@kcd.dev'' ''123456'')
     (verifications (demo_world\<lparr>users := []\<rparr>)) = Some (hd (verifications demo_world))"
    by (simp add: matches_def demo_defs)
  have h4: "totp_passes demo_collaborators ''123456'' (hd (verifications demo_world))"
    by (simp add: totp_passes_def demo_defs)
  have h5: "identity ''kody@kcd.dev'' (demo_world\<lparr>users := []\<rparr>) = None"
    by (simp add: identity_def)
  show ?thesis
    using h1 h2 h3 h4 h5 missing_identity_is_fatal [OF h1 h2 h3 h4 h5, of "demo_request None"]
    by simp
qed


subsection \<open>The session handed to the next step\<close>

lemma validate_redirect:
  assumes "fst (validate c req body w) = Inr (Redirect l s)"
  shows "\<exists>sub d u. fst (parse c body w) = Inr sub \<and> intent sub = ''submit'' \<and>
           svalue sub = Some d \<and> identity (usernameOrEmail d) w = Some u \<and>
           l = ''/reset-password'' \<and>
           s = AList.update (resetPasswordUsernameSessionKey c) (username u)
                 (getSession c (cookie req))"
proof (cases "parse c body w")
  case (Pair r w1)
  show ?thesis
  proof (cases r)
    case (Inl e)
    with Pair assms show ?thesis by (simp add: validate_def)
  next
    case (Inr sub)
    with Pair assms have "fst (finish c req sub w1) = Inr (Redirect l s)"
      by (simp add: validate_def)
    from finish_redirect [OF this] obtain d u where
      f: "intent sub = ''submit''" "svalue sub = Some d"
        "identity (usernameOrEmail d) w1 = Some u" "l = ''/reset-password''"
        "s = AList.update (resetPasswordUsernameSessionKey c) (username u)
               (getSession c (cookie req))"
      by blast
    have "users w1 = users w"
      using parse_frame(2) [of c body w] Pair by simp
    then have "identity (usernameOrEmail d) w = Some u"
      using f(3) by (simp add: identity_def)
    with f Pair Inr show ?thesis by simp
  qed
qed

lemma parse_value_attempt:
  assumes "fst (parse c body w) = Inr sub" and "svalue sub = Some d"
  shows "attempt body (intent sub) (usernameOrEmail d) (code d)"
proof (cases "read_entries body")
  case (Inl e)
  with assms(1) show ?thesis by (simp add: parse_def)
next
  case (Inr ip)
  obtain i p where ip: "ip = (i, p)" by (cases ip)
  have sub: "intent sub = i" "svalue sub = snd (fst (safeParse c p w))"
    using assms(1) Inr ip by (auto simp: parse_def split_def Let_def)
  have "map_of p forgotPasswordVerificationTargetQueryParam = Some (Str (usernameOrEmail d)) \<and>
        map_of p forgotPasswordOTPQueryParam = Some (Str (code d))"
    using assms(2) sub(2)
    by (auto simp: safeParse_def verifySchema_def split_def Let_def
        split: option.splits fvalue.splits if_splits)
  with Inr ip sub(1) show ?thesis by (simp add: attempt_def)
qed

text \<open>
  Claim C7, as amended. The session of a successful verification is the session read
  from the request's \<^verbatim>\<open>Cookie\<close> header with one property set: the reset-password key,
  holding the username of the user that the submitted target resolves to. Nothing of
  the verification record is written. The session holds exactly that one property when
  the session read from the request is empty.
\<close>

theorem session_written_once:
  assumes "fst (validate c req body w) = Inr (Redirect l s)"
  shows "\<exists>t k u. attempt body ''submit'' t k \<and> identity t w = Some u \<and>
     s = AList.update (resetPasswordUsernameSessionKey c) (username u) (getSession c (cookie req)) \<and>
     (getSession c (cookie req) = [] \<longrightarrow> s = [(resetPasswordUsernameSessionKey c, username u)])"
proof -
  from validate_redirect [OF assms] obtain sub d u where
    f: "fst (parse c body w) = Inr sub" "intent sub = ''submit''" "svalue sub = Some d"
      "identity (usernameOrEmail d) w = Some u"
      "s = AList.update (resetPasswordUsernameSessionKey c) (username u)
             (getSession c (cookie req))"
    by auto
  have a: "attempt body ''submit'' (usernameOrEmail d) (code d)"
    using parse_value_attempt [OF f(1,3)] f(2) by simp
  have e: "getSession c (cookie req) = [] \<longrightarrow>
             s = [(resetPasswordUsernameSessionKey c, username u)]"
    using f(5) by simp
  show ?thesis using a f(4,5) e by blast
qed

lemma demo_success:
  "fst (validate demo_collaborators (demo_request None) (demo_body ''kody@kcd.dev'' ''123456'')
          demo_world) =
   Inr (Redirect ''/reset-password'' [(''resetPasswordUsername'', ''kody'')])"
  by (simp add: route_defs demo_defs Let_def)

lemma attempt_unique:
  "attempt body i t k \<Longrightarrow> attempt body i' t' k' \<Longrightarrow> i' = i \<and> t' = t \<and> k' = k"
  by (auto simp: attempt_def split: sum.splits)

theorem session_written_once_witness:
  "fst (validate demo_collaborators (demo_request None) (demo_body ''kody@kcd.dev'' ''123456'')
          demo_world) =
   Inr (Redirect ''/reset-password'' [(''resetPasswordUsername'', ''kody'')]) \<and>
   getSession demo_collaborators (cookie (demo_request None)) = [] \<and>
   attempt (demo_body ''kody@kcd.dev'' ''123456'') ''submit'' ''kody@kcd.dev'' ''123456'' \<and>
   (\<exists>u. identity ''kody@kcd.dev'' demo_world = Some u \<and>
      [(''resetPasswordUsername'', ''kody'')] =
        [(resetPasswordUsernameSessionKey demo_collaborators, username u)])"
proof -
  have g: "getSession demo_collaborators (cookie (demo_request None)) = []"
    by (simp add: demo_defs)
  have h: "attempt (demo_body ''kody@kcd.dev'' ''123456'') ''submit'' ''kody@kcd.dev'' ''123456''"
    by (rule demo_attempt)
  from session_written_once [OF demo_success] obtain t k u where
    f: "attempt (demo_body ''kody@kcd.dev'' ''123456'') ''submit'' t k"
      "identity t demo_world = Some u"
      "getSession demo_collaborators (cookie (demo_request None)) = [] \<longrightarrow>
         [(''resetPasswordUsername'', ''kody'')] =
           [(resetPasswordUsernameSessionKey demo_collaborators, username u)]"
    by blast
  have "t = ''kody@kcd.dev''"
    using attempt_unique [OF h f(1)] by simp
  with f(2,3) g have "\<exists>u. identity ''kody@kcd.dev'' demo_world = Some u \<and>
      [(''resetPasswordUsername'', ''kody'')] =
        [(resetPasswordUsernameSessionKey demo_collaborators, username u)]"
    by blast
  with demo_success g h show ?thesis by blast
qed

text \<open>
  Claim C7, as stated, fails: a request whose cookie already holds a session gets that
  session back with the username added, two properties.
\<close>

theorem session_keeps_what_it_held:
  "fst (validate demo_collaborators (demo_request (Some ''42''))
          (demo_body ''kody@kcd.dev'' ''123456'') demo_world) =
   Inr (Redirect ''/reset-password'' [(''userId'', ''42''), (''resetPasswordUsername'', ''kody'')])"
  by (simp add: route_defs demo_defs Let_def)

text \<open>
  Claim C9. When an attempt with target \<open>t\<close> ends in the redirect, the value stored in
  the session under the reset-password key is the \<^verbatim>\<open>username\<close> column of the user the
  target resolves to (the first user whose email or username is \<open>t\<close>), not \<open>t\<close> itself.
\<close>

theorem session_holds_canonical_username:
  assumes "attempt body i t k" and "fst (validate c req body w) = Inr (Redirect l s)"
  shows "\<exists>u. identity t w = Some u \<and> (email u = t \<or> username u = t) \<and>
     map_of s (resetPasswordUsernameSessionKey c) = Some (username u)"
proof -
  from validate_redirect [OF assms(2)] obtain sub d u where
    f: "fst (parse c body w) = Inr sub" "svalue sub = Some d"
      "identity (usernameOrEmail d) w = Some u"
      "s = AList.update (resetPasswordUsernameSessionKey c) (username u)
             (getSession c (cookie req))"
    by auto
  have "usernameOrEmail d = t"
    using f(1,2) by (simp add: parse_attempt [OF assms(1)] split_def Let_def split: if_splits) auto
  with f(3,4) identity_Some [of t w u] show ?thesis
    by (simp add: update_conv')
qed

theorem session_holds_canonical_username_witness:
  "attempt (demo_body ''kody@kcd.dev'' ''123456'') ''submit'' ''kody@kcd.dev'' ''123456'' \<and>
   fst (validate demo_collaborators (demo_request None) (demo_body ''kody@kcd.dev'' ''123456'')
          demo_world) =
   Inr (Redirect ''/reset-password'' [(''resetPasswordUsername'', ''kody'')]) \<and>
   identity ''kody@kcd.dev'' demo_world = Some \<lparr>email = ''kody@kcd.dev'', username = ''kody''\<rparr> \<and>
   map_of [(''resetPasswordUsername'', ''kody'')]
     (resetPasswordUsernameSessionKey demo_collaborators) = Some ''kody'' \<and>
   ''kody'' \<noteq> ''kody@kcd.dev''"
proof -
  have h1: "attempt (demo_body ''kody@kcd.dev'' ''123456'') ''submit'' ''kody@kcd.dev'' ''123456''"
    by (rule demo_attempt)
  have i: "identity ''kody@kcd.dev'' demo_world = Some \<lparr>email = ''kody@kcd.dev'', username = ''kody''\<rparr>"
    by (simp add: identity_def demo_world_def)
  show ?thesis
    using h1 i demo_success session_holds_canonical_username [OF h1 demo_success]
    by auto
qed

subsection \<open>Intents other than submit, and the loader\<close>

text \<open>
  Claim C8. When the intent of the body is not \<^verbatim>\<open>submit\<close> (also when conform refuses
  the body), \<^verbatim>\<open>validate\<close> leaves both tables as they were, deletes nothing, makes no
  session call and does not redirect. The lookup and the verifier may have run.
\<close>

theorem not_submit_changes_nothing:
  assumes "body_intent body \<noteq> Some ''submit''"
  shows "let (out, w') = validate c req body w in
     verifications w' = verifications w \<and> users w' = users w \<and>
     deletions w' = deletions w \<and> session_calls w' = session_calls w \<and> \<not> is_redirect out"
proof (cases "parse c body w")
  case (Pair r w1)
  have fr: "verifications w1 = verifications w" "users w1 = users w"
    "deletions w1 = deletions w" "session_calls w1 = session_calls w"
    using parse_frame [of c body w] Pair by simp_all
  show ?thesis
  proof (cases r)
    case (Inl e)
    with Pair fr show ?thesis by (simp add: validate_def is_redirect_def)
  next
    case (Inr sub)
    have "intent sub \<noteq> ''submit''"
      using assms Pair Inr
      by (auto simp: parse_def body_intent_def split_def Let_def split: sum.splits)
    with Pair Inr fr show ?thesis
      by (simp add: validate_def finish_not_submit is_redirect_def)
  qed
qed

theorem not_submit_changes_nothing_witness:
  "body_intent ((''__intent__'', ''validate/code'') # demo_body ''kody@kcd.dev'' ''123456'')
     \<noteq> Some ''submit'' \<and>
   verifications (snd (validate demo_collaborators (demo_request None)
     ((''__intent__'', ''validate/code'') # demo_body ''kody@kcd.dev'' ''123456'') demo_world)) =
     verifications demo_world \<and>
   \<not> is_redirect (fst (validate demo_collaborators (demo_request None)
     ((''__intent__'', ''validate/code'') # demo_body ''kody@kcd.dev'' ''123456'') demo_world))"
proof -
  have h: "body_intent ((''__intent__'', ''validate/code'') # demo_body ''kody@kcd.dev'' ''123456'')
     \<noteq> Some ''submit''"
    by (simp add: body_intent_def demo_defs conform_defs)
  show ?thesis
    using h not_submit_changes_nothing [OF h, of demo_collaborators "demo_request None" demo_world]
    by (simp add: split_def Let_def)
qed

text \<open>
  A body without an intent entry has the intent \<^verbatim>\<open>submit\<close>: the loader, given a query
  string with a valid target and code, consumes the record and redirects.
\<close>

lemma loader_with_valid_code_consumes:
  "loader demo_collaborators
     (demo_request None\<lparr>searchParams := demo_body ''kody@kcd.dev'' ''123456''\<rparr>) demo_world =
   (Inr (Redirect ''/reset-password'' [(''resetPasswordUsername'', ''kody'')]),
    demo_world\<lparr>verifications := [],
      trace := [FindFirstVerification ''forgot-password'' ''kody@kcd.dev'' ''123456'',
                VerifyTOTP ''123456'' ''KEY'' ''SHA1'' 30 50,
                DeleteManyVerification ''forgot-password'' ''kody@kcd.dev'' ''123456'',
                FindFirstUser ''kody@kcd.dev'', GetSession None,
                CommitSession [(''resetPasswordUsername'', ''kody'')]]\<rparr>)"
  by (simp add: loader_def route_defs demo_defs Let_def)

text \<open>
  Claim C10. When the query string has no entry named by the OTP parameter, the loader
  answers \<^verbatim>\<open>idle\<close> with an empty intent and an empty error object and leaves the state,
  trace included, as it was: no lookup, no call of the verifier.
\<close>

theorem loader_without_code_is_idle:
  assumes "forgotPasswordOTPQueryParam \<notin> fst ` set (searchParams req)"
  shows "loader c req w =
     (Inr (Json 200 ''idle''
            \<lparr>intent = [], payload = fromEntries (searchParams req), error = [],
             svalue = None\<rparr>), w)"
  using assms by (simp add: loader_def)

theorem loader_without_code_is_idle_witness:
  "forgotPasswordOTPQueryParam \<notin>
     fst ` set (searchParams (demo_request None\<lparr>searchParams := [(''usernameOrEmail'', ''kody'')]\<rparr>)) \<and>
   loader demo_collaborators (demo_request None\<lparr>searchParams := [(''usernameOrEmail'', ''kody'')]\<rparr>)
     demo_world =
     (Inr (Json 200 ''idle''
            \<lparr>intent = [], payload = [(''usernameOrEmail'', Str ''kody'')], error = [],
             svalue = None\<rparr>), demo_world)"
proof -
  have h: "forgotPasswordOTPQueryParam \<notin>
     fst ` set (searchParams (demo_request None\<lparr>searchParams := [(''usernameOrEmail'', ''kody'')]\<rparr>))"
    by (simp add: demo_defs)
  show ?thesis
    using h loader_without_code_is_idle [OF h, of demo_collaborators demo_world]
    by (simp add: fromEntries_def)
qed


subsection \<open>Two attempts with the same code\<close>

text \<open>\<^verbatim>\<open>validate\<close> is the parse followed by the rest, the two steps the schedules are made of.\<close>

lemma validate_run_finish:
  "validate c req body w = (case parse c body w of (r, w1) \<Rightarrow> run_finish c req r w1)"
  by (simp add: validate_def run_finish_def split: prod.splits sum.splits)

lemma sequential_run_finish:
  "sequential c1 req1 body1 c2 req2 body2 w =
     (let (r1, wa) = parse c1 body1 w;
          (out1, wb) = run_finish c1 req1 r1 wa;
          (r2, wc) = parse c2 body2 wb;
          (out2, wd) = run_finish c2 req2 r2 wc
      in (out1, out2, wd))"
  by (simp add: sequential_def validate_run_finish split_def Let_def)

lemma parse_success:
  assumes "attempt body ''submit'' t k" and "well_formed c t k"
    and "find (matches (verificationType c) t k) (verifications w) = Some r"
    and "totp_passes c k r"
  shows "parse c body w =
     (Inr \<lparr>intent = ''submit'', payload = body_payload body, error = [],
           svalue = Some \<lparr>usernameOrEmail = t, code = k\<rparr>\<rparr>,
      w\<lparr>trace := trace w @ [FindFirstVerification (verificationType c) t k,
                            VerifyTOTP k (secretKey r) (algorithm r) (validSeconds r) 50]\<rparr>)"
  using assms(2,4) base_issues_Nil [of c t k]
  by (simp add: parse_attempt [OF assms(1)] refine_some [OF assms(3)])

lemma finish_success:
  assumes "intent sub = ''submit''" and "svalue sub = Some \<lparr>usernameOrEmail = t, code = k\<rparr>"
    and "identity t w = Some u"
  shows "is_redirect (fst (finish c req sub w))"
    and "pending c t k (snd (finish c req sub w)) = []"
    and "users (snd (finish c req sub w)) = users w"
  using assms(3) by (simp_all add: finish_value [OF assms(1,2)] is_redirect_def pending_def)

text \<open>
  Claim C2, as amended. Two submitted, well-formed attempts carry the same target and
  code, which match the record \<open>r\<close>; the verifier accepts the code for both, and the
  target resolves to a user. Handled one after the other, the first is redirected and
  the second is rejected with \<^verbatim>\<open>Invalid code\<close>, its lookup finding nothing. Interleaved
  so that both parses run before either deletion, both are redirected: the second
  \<^verbatim>\<open>deleteMany\<close> removes nothing, and the route does not look at its count.
\<close>

theorem same_code_twice:
  assumes "attempt body1 ''submit'' t k" and "attempt body2 ''submit'' t k"
    and "well_formed c1 t k" and "well_formed c2 t k"
    and "verificationType c2 = verificationType c1"
    and "find (matches (verificationType c1) t k) (verifications w) = Some r"
    and "totp_passes c1 k r" and "totp_passes c2 k r"
    and "identity t w = Some u"
  shows "(case sequential c1 req1 body1 c2 req2 body2 w of
            (out1, out2, w') \<Rightarrow> is_redirect out1 \<and> is_rejection out2 \<and> pending c1 t k w' = []) \<and>
         (case interleaved c1 req1 body1 c2 req2 body2 w of
            (out1, out2, w') \<Rightarrow> is_redirect out1 \<and> is_redirect out2 \<and> pending c1 t k w' = [])"
proof -
  let ?d = "\<lparr>usernameOrEmail = t, code = k\<rparr>"
  let ?ev = "[FindFirstVerification (verificationType c1) t k,
              VerifyTOTP k (secretKey r) (algorithm r) (validSeconds r) 50]"
  let ?sub1 = "\<lparr>intent = ''submit'', payload = body_payload body1, error = [], svalue = Some ?d\<rparr>"
  let ?sub2 = "\<lparr>intent = ''submit'', payload = body_payload body2, error = [], svalue = Some ?d\<rparr>"
  define wa where "wa = w\<lparr>trace := trace w @ ?ev\<rparr>"
  define wb where "wb = wa\<lparr>trace := trace wa @ ?ev\<rparr>"
  have p1: "parse c1 body1 w = (Inr ?sub1, wa)"
    unfolding wa_def by (rule parse_success [OF assms(1,3,6,7)])
  have ia: "identity t wa = Some u" and ib: "identity t wb = Some u"
    using assms(9) by (simp_all add: identity_def wa_def wb_def)
  \<comment> \<open>one after the other\<close>
  obtain o1 w1 where f1: "finish c1 req1 ?sub1 wa = (o1, w1)"
    by (cases "finish c1 req1 ?sub1 wa")
  have s1: "is_redirect o1" "pending c1 t k w1 = []"
    using finish_success(1,2) [of ?sub1 t k wa u c1 req1] ia f1 by simp_all
  have none: "find (matches (verificationType c2) t k) (verifications w1) = None"
    using s1(2) assms(5) by (simp add: pending_Nil_iff)
  note r2 = rejected_when_none_pending [OF assms(2) none, of req2]
  have seq: "case sequential c1 req1 body1 c2 req2 body2 w of
            (out1, out2, w') \<Rightarrow> is_redirect out1 \<and> is_rejection out2 \<and> pending c1 t k w' = []"
  proof -
    have v1: "validate c1 req1 body1 w = (o1, w1)"
      by (simp add: validate_def p1 f1)
    obtain o2 w2 where v2: "validate c2 req2 body2 w1 = (o2, w2)"
      by (cases "validate c2 req2 body2 w1")
    have "is_rejection o2" and "pending c1 t k w2 = []"
      using r2 s1(2) v2 by (simp_all add: pending_def)
    with s1(1) show ?thesis
      by (simp add: sequential_def v1 v2)
  qed
  \<comment> \<open>interleaved\<close>
  have fa_find: "find (matches (verificationType c2) t k) (verifications wa) = Some r"
    using assms(5,6) by (simp add: wa_def)
  have p2: "parse c2 body2 wa = (Inr ?sub2, wb)"
    using parse_success [OF assms(2,4) fa_find assms(8)] assms(5) by (simp add: wb_def)
  obtain oa wc where fa: "finish c1 req1 ?sub1 wb = (oa, wc)"
    by (cases "finish c1 req1 ?sub1 wb")
  have sa: "is_redirect oa" "pending c1 t k wc = []" "users wc = users wb"
    using finish_success [of ?sub1 t k wb u c1 req1] ib fa by simp_all
  have ic: "identity t wc = Some u"
    using ib sa(3) by (simp add: identity_def)
  obtain ob wd where fb: "finish c2 req2 ?sub2 wc = (ob, wd)"
    by (cases "finish c2 req2 ?sub2 wc")
  have sb: "is_redirect ob" "pending c2 t k wd = []"
    using finish_success(1,2) [of ?sub2 t k wc u c2 req2] ic fb by simp_all
  have int: "case interleaved c1 req1 body1 c2 req2 body2 w of
            (out1, out2, w') \<Rightarrow> is_redirect out1 \<and> is_redirect out2 \<and> pending c1 t k w' = []"
    using sa(1) sb assms(5)
    by (simp add: interleaved_def p1 p2 run_finish_def fa fb pending_def)
  show ?thesis using seq int by simp
qed

theorem same_code_twice_witness:
  "attempt (demo_body ''kody@kcd.dev'' ''123456'') ''submit'' ''kody@kcd.dev'' ''123456'' \<and>
   well_formed demo_collaborators ''kody@kcd.dev'' ''123456'' \<and>
   find (matches (verificationType demo_collaborators) ''kody@kcd.dev'' ''123456'')
     (verifications demo_world) = Some (hd (verifications demo_world)) \<and>
   totp_passes demo_collaborators ''123456'' (hd (verifications demo_world)) \<and>
   identity ''kody@kcd.dev'' demo_world = Some (hd (users demo_world)) \<and>
   is_redirect (fst (sequential
      demo_collaborators (demo_request None) (demo_body ''kody@kcd.dev'' ''123456'')
      demo_collaborators (demo_request None) (demo_body ''kody@kcd.dev'' ''123456'') demo_world)) \<and>
   is_rejection (fst (snd (sequential
      demo_collaborators (demo_request None) (demo_body ''kody@kcd.dev'' ''123456'')
      demo_collaborators (demo_request None) (demo_body ''kody@kcd.dev'' ''123456'') demo_world)))"
proof -
  have h1: "attempt (demo_body ''kody@kcd.dev'' ''123456'') ''submit'' ''kody@kcd.dev'' ''123456''"
    by (rule demo_attempt)
  have h2: "well_formed demo_collaborators ''kody@kcd.dev'' ''123456''"
    by (simp add: well_formed_def demo_defs)
  have h3: "find (matches (verificationType demo_collaborators) ''kody@kcd.dev'' ''123456'')
     (verifications demo_world) = Some (hd (verifications demo_world))"
    by (simp add: matches_def demo_defs)
  have h4: "totp_passes demo_collaborators ''123456'' (hd (verifications demo_world))"
    by (simp add: totp_passes_def demo_defs)
  have h5: "identity ''kody@kcd.dev'' demo_world = Some (hd (users demo_world))"
    by (simp add: identity_def demo_world_def)
  show ?thesis
    using h1 h2 h3 h4 h5
      same_code_twice [OF h1 h1 h2 h2 refl h3 h4 h4 h5, of "demo_request None" "demo_request None"]
    by (simp add: split_def)
qed

text \<open>
  Claim C2, as stated, fails: in the interleaved schedule both attempts are redirected,
  each with a session for the user.
\<close>

theorem both_attempts_verified:
  "interleaved
     demo_collaborators (demo_request None) (demo_body ''kody@kcd.dev'' ''123456'')
     demo_collaborators (demo_request None) (demo_body ''kody@kcd.dev'' ''123456'') demo_world =
   (Inr (Redirect ''/reset-password'' [(''resetPasswordUsername'', ''kody'')]),
    Inr (Redirect ''/reset-password'' [(''resetPasswordUsername'', ''kody'')]),
    demo_world\<lparr>verifications := [],
      trace :=
        [FindFirstVerification ''forgot-password'' ''kody@kcd.dev'' ''123456'',
         VerifyTOTP ''123456'' ''KEY'' ''SHA1'' 30 50,
         FindFirstVerification ''forgot-password'' ''kody@kcd.dev'' ''123456'',
         VerifyTOTP ''123456'' ''KEY'' ''SHA1'' 30 50,
         DeleteManyVerification ''forgot-password'' ''kody@kcd.dev'' ''123456'',
         FindFirstUser ''kody@kcd.dev'', GetSession None,
         CommitSession [(''resetPasswordUsername'', ''kody'')],
         DeleteManyVerification ''forgot-password'' ''kody@kcd.dev'' ''123456'',
         FindFirstUser ''kody@kcd.dev'', GetSession None,
         CommitSession [(''resetPasswordUsername'', ''kody'')]]\<rparr>)"
  by (simp add: interleaved_def run_finish_def route_defs demo_defs Let_def)

end
